theory Spec2Isabelle
  imports Complex_Main
begin

section \<open>Data model\<close>

text \<open>
  The program keeps two containers \<open>big\<close> and \<open>small\<close> and one scalar
  \<open>externalPressure\<close> as globals of \<^verbatim>\<open>main.cpp\<close>. The C++ type \<^verbatim>\<open>float\<close> is
  modelled by \<^typ>\<open>real\<close>: every operation is exact, there is no rounding, no infinity
  and no NaN. \<^verbatim>\<open>glm::vec2\<close> is a pair of coordinates.
\<close>

record vec2 =
  vec_x :: real
  vec_y :: real

record container =
  height :: real
  width :: real
  bottomLeft :: vec2
  bottomRight :: vec2
  topLeft :: vec2
  topRight :: vec2
  pressure :: real

record state =
  big :: container
  small :: container
  externalPressure :: real

text \<open>
  \<^verbatim>\<open>#define density 1.0f\<close> and \<^verbatim>\<open>#define gravity 9.8f\<close>. The constant is taken as
  the decimal \<open>9.8\<close>; the binary32 value of the literal is \<open>10276045 / 1048576\<close>.
\<close>

definition density :: real where
  "density = 1.0"

definition gravity :: real where
  "gravity = 9.8"

definition vec2 :: "real \<Rightarrow> real \<Rightarrow> vec2" where
  "vec2 a b = \<lparr>vec_x = a, vec_y = b\<rparr>"

section \<open>Operations\<close>

text \<open>
  \<^verbatim>\<open>setup()\<close> assigns every field of both containers and leaves
  \<open>externalPressure\<close> alone. The pressure is computed last, from the height just
  assigned.
\<close>

definition setup_state :: "state \<Rightarrow> state" where
  "setup_state s =
    (let b1 = \<lparr>height = 0.5, width = 0.5,
                bottomLeft = vec2 (- 0.75) (- 0.5), bottomRight = vec2 (- 0.25) (- 0.5),
                topLeft = vec2 (- 0.75) 0.0, topRight = vec2 (- 0.25) 0.0,
                pressure = pressure (big s)\<rparr>;
         b2 = b1\<lparr>pressure := height b1 * density * gravity\<rparr>;
         c1 = \<lparr>height = 0.5, width = 0.25,
                bottomLeft = vec2 0.5 (- 0.5), bottomRight = vec2 0.75 (- 0.5),
                topLeft = vec2 0.5 0.0, topRight = vec2 0.75 0.0,
                pressure = pressure (small s)\<rparr>;
         c2 = c1\<lparr>pressure := height c1 * density * gravity\<rparr>
     in s\<lparr>big := b2, small := c2\<rparr>)"

text \<open>
  The globals are zero-initialised (\<^verbatim>\<open>float externalPressure = 0\<close>; the two structs
  have static storage). \<open>initial\<close> is the state in which the main loop starts:
  the zeroed globals after \<^verbatim>\<open>setup()\<close>.
\<close>

definition zero_container :: container where
  "zero_container =
    \<lparr>height = 0, width = 0, bottomLeft = vec2 0 0, bottomRight = vec2 0 0,
     topLeft = vec2 0 0, topRight = vec2 0 0, pressure = 0\<rparr>"

definition zero_state :: state where
  "zero_state = \<lparr>big = zero_container, small = zero_container, externalPressure = 0\<rparr>"

definition initial :: state where
  "initial = setup_state zero_state"

text \<open>
  \<^verbatim>\<open>update()\<close>, statement by statement. The two early \<^verbatim>\<open>return\<close>s leave the state as
  it is at that point, that is with both pressure fields already reassigned.
\<close>

definition update :: "state \<Rightarrow> state" where
  "update s0 =
    (let s1 = s0\<lparr>big := (big s0)\<lparr>pressure := height (big s0) * gravity * density\<rparr>\<rparr>;
         s2 = s1\<lparr>small := (small s1)\<lparr>pressure := height (small s1) * gravity * density\<rparr>\<rparr>;
         LeftPressure = pressure (big s2) + externalPressure s2;
         rightPressure = pressure (small s2)
     in if LeftPressure = rightPressure then s2
        else
          let h = LeftPressure / (gravity * density);
              change0 = height (small s2);
              change1 = change0 - h;
              change = change1 / 2.0
          in if height (big s2) + change < 0.0 \<or> h + change < 0.0 then s2
             else
               let s3 = s2\<lparr>big := (big s2)\<lparr>height := height (big s2) + change\<rparr>\<rparr>;
                   h' = h + change;
                   s4 = s3\<lparr>small := (small s3)\<lparr>topLeft := (topLeft (small s3))\<lparr>vec_y := h' - 0.5\<rparr>\<rparr>\<rparr>;
                   s5 = s4\<lparr>small := (small s4)\<lparr>topRight := (topRight (small s4))\<lparr>vec_y := h' - 0.5\<rparr>\<rparr>\<rparr>;
                   s6 = s5\<lparr>big := (big s5)\<lparr>topLeft := (topLeft (big s5))\<lparr>vec_y := height (big s5) - 0.5\<rparr>\<rparr>\<rparr>;
                   s7 = s6\<lparr>big := (big s6)\<lparr>topRight := (topRight (big s6))\<lparr>vec_y := height (big s6) - 0.5\<rparr>\<rparr>\<rparr>
               in s7\<lparr>small := (small s7)\<lparr>height := vec_y (topLeft (small s7)) - vec_y (bottomLeft (small s7))\<rparr>\<rparr>)"

text \<open>
  The key and action codes of \<^verbatim>\<open>key_callback\<close> come from the GLFW header that
  \<^verbatim>\<open>GLIncludes.h\<close> includes; the values below are those of \<^verbatim>\<open>GLFW/glfw3.h\<close>.
\<close>

definition GLFW_RELEASE :: int where "GLFW_RELEASE = 0"
definition GLFW_PRESS :: int where "GLFW_PRESS = 1"
definition GLFW_REPEAT :: int where "GLFW_REPEAT = 2"
definition GLFW_KEY_SPACE :: int where "GLFW_KEY_SPACE = 32"
definition GLFW_KEY_LEFT_SHIFT :: int where "GLFW_KEY_LEFT_SHIFT = 340"

text \<open>
  \<^verbatim>\<open>key_callback(window, key, scancode, action, mods)\<close>: two independent \<^verbatim>\<open>if\<close>
  statements, run one after the other. The window handle is not read.
\<close>

definition key_callback :: "int \<Rightarrow> int \<Rightarrow> int \<Rightarrow> int \<Rightarrow> state \<Rightarrow> state" where
  "key_callback key scancode action mods s0 =
    (let s1 = (if key = GLFW_KEY_SPACE \<and> (action = GLFW_PRESS \<or> action = GLFW_REPEAT)
               then s0\<lparr>externalPressure := externalPressure s0 + 0.1\<rparr> else s0);
         s2 = (if key = GLFW_KEY_LEFT_SHIFT \<and> (action = GLFW_PRESS \<or> action = GLFW_REPEAT)
               then s1\<lparr>externalPressure := externalPressure s1 - 0.1\<rparr> else s1)
     in s2)"

text \<open>
  The specification names the statement \<^verbatim>\<open>externalPressure += delta\<close> as an operation
  of its own, \<open>applyPressureDelta\<close>; the source has it inline in \<^verbatim>\<open>key_callback\<close>
  with the two deltas \<open>0.1\<close> and \<open>- 0.1\<close>.
\<close>

definition applyPressureDelta :: "real \<Rightarrow> state \<Rightarrow> state" where
  "applyPressureDelta delta s = s\<lparr>externalPressure := externalPressure s + delta\<rparr>"

text \<open>
  The main loop calls \<^verbatim>\<open>update()\<close> once per frame and then polls the events, which
  runs \<^verbatim>\<open>key_callback\<close> for each pending key event. A run of the program is a finite
  sequence of such events, applied from left to right.
\<close>

datatype event = Tick | Key int int int int | PressureDelta real

fun step :: "event \<Rightarrow> state \<Rightarrow> state" where
  "step Tick s = update s"
| "step (Key key scancode action mods) s = key_callback key scancode action mods s"
| "step (PressureDelta delta) s = applyPressureDelta delta s"

fun run :: "event list \<Rightarrow> state \<Rightarrow> state" where
  "run [] s = s"
| "run (e # es) s = run es (step e s)"

section \<open>Quantities of one tick\<close>

text \<open>
  The values that \<^verbatim>\<open>update()\<close> holds in its locals, as functions of the state at
  entry: the two pressures it compares, the target height \<open>h\<close>, the halved
  difference \<open>change\<close>, and the condition of its second early return.
\<close>

definition leftPressure :: "state \<Rightarrow> real" where
  "leftPressure s = height (big s) * gravity * density + externalPressure s"

definition rightPressure :: "state \<Rightarrow> real" where
  "rightPressure s = height (small s) * gravity * density"

definition target_height :: "state \<Rightarrow> real" where
  "target_height s = leftPressure s / (gravity * density)"

definition change_of :: "state \<Rightarrow> real" where
  "change_of s = (height (small s) - target_height s) / 2"

definition guard_triggers :: "state \<Rightarrow> bool" where
  "guard_triggers s \<longleftrightarrow>
     height (big s) + change_of s < 0 \<or> target_height s + change_of s < 0"

text \<open>The state at either early return: only the two pressure fields reassigned.\<close>

definition refreshed :: "state \<Rightarrow> state" where
  "refreshed s =
     s\<lparr>big := (big s)\<lparr>pressure := height (big s) * gravity * density\<rparr>,
       small := (small s)\<lparr>pressure := height (small s) * gravity * density\<rparr>\<rparr>"

section \<open>Predicates and measures used by the properties\<close>

text \<open>
  A state is valid when both heights are non-negative and the bottom edge of the small
  container is where \<^verbatim>\<open>setup()\<close> puts it (\<open>y = - 0.5\<close>); no statement of the program
  assigns a bottom corner afterwards.
\<close>

definition valid_state :: "state \<Rightarrow> bool" where
  "valid_state s \<longleftrightarrow>
     0 \<le> height (big s) \<and> 0 \<le> height (small s) \<and> vec_y (bottomLeft (small s)) = - 0.5"

text \<open>
  The absolute pressure difference, once as \<^verbatim>\<open>update()\<close> computes the two pressures
  from the heights, once as the two stored \<open>pressure\<close> fields hold them. The stored
  fields are current when they equal what \<^verbatim>\<open>update()\<close> would assign.
\<close>

definition hydro_gap :: "state \<Rightarrow> real" where
  "hydro_gap s = \<bar>height (big s) * gravity * density - height (small s) * gravity * density\<bar>"

definition stored_gap :: "state \<Rightarrow> real" where
  "stored_gap s = \<bar>pressure (big s) - pressure (small s)\<bar>"

definition pressures_current :: "state \<Rightarrow> bool" where
  "pressures_current s \<longleftrightarrow>
     pressure (big s) = height (big s) * gravity * density \<and>
     pressure (small s) = height (small s) * gravity * density"

text \<open>Two states differ in the widths at most when they agree after erasing both widths.\<close>

definition width_erase :: "state \<Rightarrow> state" where
  "width_erase s = s\<lparr>big := (big s)\<lparr>width := 0\<rparr>, small := (small s)\<lparr>width := 0\<rparr>\<rparr>"

section \<open>The three paths through update\<close>

lemma update_balanced:
  "leftPressure s = rightPressure s \<Longrightarrow> update s = refreshed s"
  by (simp add: update_def refreshed_def leftPressure_def rightPressure_def Let_def)

lemma update_guarded:
  "guard_triggers s \<Longrightarrow> update s = refreshed s"
  by (simp add: update_def refreshed_def guard_triggers_def change_of_def target_height_def
      leftPressure_def rightPressure_def Let_def)

lemma update_applied:
  assumes "leftPressure s \<noteq> rightPressure s" and "\<not> guard_triggers s"
  shows "update s =
     s\<lparr>big := (big s)\<lparr>pressure := height (big s) * gravity * density,
                        height := height (big s) + change_of s,
                        topLeft := (topLeft (big s))\<lparr>vec_y := height (big s) + change_of s - 0.5\<rparr>,
                        topRight := (topRight (big s))\<lparr>vec_y := height (big s) + change_of s - 0.5\<rparr>\<rparr>,
       small := (small s)\<lparr>pressure := height (small s) * gravity * density,
                          topLeft := (topLeft (small s))\<lparr>vec_y := target_height s + change_of s - 0.5\<rparr>,
                          topRight := (topRight (small s))\<lparr>vec_y := target_height s + change_of s - 0.5\<rparr>,
                          height := target_height s + change_of s - 0.5 - vec_y (bottomLeft (small s))\<rparr>\<rparr>"
  using assms
  by (simp add: update_def guard_triggers_def change_of_def target_height_def
      leftPressure_def rightPressure_def Let_def)

lemma refreshed_heights [simp]:
  "height (big (refreshed s)) = height (big s)"
  "height (small (refreshed s)) = height (small s)"
  "externalPressure (refreshed s) = externalPressure s"
  "bottomLeft (small (refreshed s)) = bottomLeft (small s)"
  by (simp_all add: refreshed_def)

lemma refreshed_idem: "refreshed (refreshed s) = refreshed s"
  by (simp add: refreshed_def)

section \<open>Basic facts\<close>

lemma initial_eq:
  "initial =
    \<lparr>big = \<lparr>height = 1/2, width = 1/2,
             bottomLeft = \<lparr>vec_x = - (3/4), vec_y = - (1/2)\<rparr>,
             bottomRight = \<lparr>vec_x = - (1/4), vec_y = - (1/2)\<rparr>,
             topLeft = \<lparr>vec_x = - (3/4), vec_y = 0\<rparr>,
             topRight = \<lparr>vec_x = - (1/4), vec_y = 0\<rparr>,
             pressure = 49/10\<rparr>,
     small = \<lparr>height = 1/2, width = 1/4,
             bottomLeft = \<lparr>vec_x = 1/2, vec_y = - (1/2)\<rparr>,
             bottomRight = \<lparr>vec_x = 3/4, vec_y = - (1/2)\<rparr>,
             topLeft = \<lparr>vec_x = 1/2, vec_y = 0\<rparr>,
             topRight = \<lparr>vec_x = 3/4, vec_y = 0\<rparr>,
             pressure = 49/10\<rparr>,
     externalPressure = 0\<rparr>"
  by (simp add: initial_def setup_state_def zero_state_def zero_container_def vec2_def
      density_def gravity_def Let_def)

lemma update_externalPressure [simp]: "externalPressure (update s) = externalPressure s"
  by (simp add: update_def Let_def)

lemma update_bottomLeft_small [simp]: "bottomLeft (small (update s)) = bottomLeft (small s)"
  by (simp add: update_def Let_def)

lemma update_pressures:
  "pressure (big (update s)) = height (big s) * gravity * density"
  "pressure (small (update s)) = height (small s) * gravity * density"
  by (simp_all add: update_def Let_def)

lemma update_heights_cases:
  "height (big (update s)) =
     (if leftPressure s = rightPressure s \<or> guard_triggers s then height (big s)
      else height (big s) + change_of s)"
  "height (small (update s)) =
     (if leftPressure s = rightPressure s \<or> guard_triggers s then height (small s)
      else target_height s + change_of s - 0.5 - vec_y (bottomLeft (small s)))"
  by (auto simp: update_balanced update_guarded update_applied)

lemma target_times_gd: "target_height s * (gravity * density) = leftPressure s"
  by (simp add: target_height_def gravity_def density_def)

lemma update_balances:
  assumes geo: "vec_y (bottomLeft (small s)) = - 0.5"
    and ne: "leftPressure s \<noteq> rightPressure s" and ng: "\<not> guard_triggers s"
  shows "leftPressure (update s) = rightPressure (update s)"
proof -
  have hb: "height (big (update s)) = height (big s) + change_of s"
    using ne ng by (simp add: update_heights_cases)
  have hs: "height (small (update s)) = target_height s + change_of s"
    using ne ng geo by (simp add: update_heights_cases)
  have "leftPressure (update s) = leftPressure s + change_of s * (gravity * density)"
    by (simp add: leftPressure_def hb algebra_simps)
  also have "\<dots> = (target_height s + change_of s) * (gravity * density)"
    by (simp add: target_times_gd distrib_right)
  also have "\<dots> = rightPressure (update s)"
    by (simp add: rightPressure_def hs algebra_simps)
  finally show ?thesis .
qed

lemma update_valid:
  assumes "valid_state s" shows "valid_state (update s)"
proof (cases "leftPressure s = rightPressure s \<or> guard_triggers s")
  case True
  then show ?thesis using assms by (auto simp: valid_state_def update_heights_cases)
next
  case False
  then show ?thesis using assms
    by (auto simp: valid_state_def update_heights_cases guard_triggers_def)
qed

lemma key_callback_cases:
  "key_callback key scancode action mods s =
     (if key = GLFW_KEY_SPACE \<and> (action = GLFW_PRESS \<or> action = GLFW_REPEAT)
      then applyPressureDelta 0.1 s
      else if key = GLFW_KEY_LEFT_SHIFT \<and> (action = GLFW_PRESS \<or> action = GLFW_REPEAT)
      then applyPressureDelta (- 0.1) s
      else s)"
  by (simp add: key_callback_def applyPressureDelta_def Let_def
      GLFW_KEY_SPACE_def GLFW_KEY_LEFT_SHIFT_def)

lemma step_valid:
  assumes v: "valid_state s" shows "valid_state (step e s)"
proof (cases e)
  case Tick
  then show ?thesis using v by (simp add: update_valid)
next
  case (Key key scancode action mods)
  then show ?thesis using v
    by (simp add: key_callback_cases applyPressureDelta_def valid_state_def)
next
  case (PressureDelta delta)
  then show ?thesis using v by (simp add: applyPressureDelta_def valid_state_def)
qed

lemma run_valid: "valid_state s \<Longrightarrow> valid_state (run es s)"
  by (induction es arbitrary: s) (simp_all add: step_valid)

lemma initial_valid: "valid_state initial"
  by (simp add: valid_state_def initial_eq)

lemma reachable_valid: "valid_state (run es initial)"
  by (rule run_valid [OF initial_valid])

section \<open>Frame condition of the tick\<close>

text \<open>
  Claim C10. A tick never modifies \<open>externalPressure\<close>, either container's width,
  either container's bottom corners, or the x-coordinate of any top corner. What is
  left, and so all it may change, are the two heights, the two pressure fields and the
  y-coordinates of the four top corners.
\<close>

theorem update_frame:
  "externalPressure (update s) = externalPressure s
   \<and> width (big (update s)) = width (big s)
   \<and> width (small (update s)) = width (small s)
   \<and> bottomLeft (big (update s)) = bottomLeft (big s)
   \<and> bottomRight (big (update s)) = bottomRight (big s)
   \<and> bottomLeft (small (update s)) = bottomLeft (small s)
   \<and> bottomRight (small (update s)) = bottomRight (small s)
   \<and> vec_x (topLeft (big (update s))) = vec_x (topLeft (big s))
   \<and> vec_x (topRight (big (update s))) = vec_x (topRight (big s))
   \<and> vec_x (topLeft (small (update s))) = vec_x (topLeft (small s))
   \<and> vec_x (topRight (small (update s))) = vec_x (topRight (small s))"
  by (simp add: update_def Let_def)

section \<open>The tick on its main path\<close>

text \<open>
  Claim C2. In every state where the left pressure
  \<open>big.height * gravity * density + externalPressure\<close> differs from the right pressure
  \<open>small.height * gravity * density\<close> and the guard does not trigger, the tick takes
  \<open>h = leftPressure / (gravity * density)\<close> and \<open>change = (small.height - h) / 2\<close>,
  adds \<open>change\<close> to \<open>big.height\<close> and to \<open>h\<close>, sets the top edge of the small
  container to \<open>h - 0.5\<close> and that of the big one to \<open>big.height - 0.5\<close> (the new
  values), and last re-derives \<open>small.height\<close> as
  \<open>small.topLeft.y - small.bottomLeft.y\<close> from the geometry just written.
\<close>

theorem update_algorithm:
  assumes "leftPressure s \<noteq> rightPressure s" and "\<not> guard_triggers s"
  shows "target_height s = leftPressure s / (gravity * density)
   \<and> change_of s = (height (small s) - target_height s) / 2
   \<and> height (big (update s)) = height (big s) + change_of s
   \<and> vec_y (topLeft (small (update s))) = (target_height s + change_of s) - 0.5
   \<and> vec_y (topRight (small (update s))) = (target_height s + change_of s) - 0.5
   \<and> vec_y (topLeft (big (update s))) = height (big (update s)) - 0.5
   \<and> vec_y (topRight (big (update s))) = height (big (update s)) - 0.5
   \<and> height (small (update s)) =
       vec_y (topLeft (small (update s))) - vec_y (bottomLeft (small (update s)))"
  by (simp add: update_applied [OF assms] target_height_def change_of_def)

theorem update_algorithm_witness:
  "leftPressure (applyPressureDelta 0.1 initial) \<noteq> rightPressure (applyPressureDelta 0.1 initial)
   \<and> \<not> guard_triggers (applyPressureDelta 0.1 initial)
   \<and> height (big (update (applyPressureDelta 0.1 initial))) = 97 / 196
   \<and> height (small (update (applyPressureDelta 0.1 initial))) = 99 / 196
   \<and> vec_y (topLeft (small (update (applyPressureDelta 0.1 initial)))) = 1 / 196"
proof -
  let ?s = "applyPressureDelta 0.1 initial"
  have ne: "leftPressure ?s \<noteq> rightPressure ?s"
    by (simp add: leftPressure_def rightPressure_def applyPressureDelta_def initial_eq
        gravity_def density_def)
  have ng: "\<not> guard_triggers ?s"
    by (simp add: guard_triggers_def change_of_def target_height_def leftPressure_def
        applyPressureDelta_def initial_eq gravity_def density_def)
  have c: "change_of ?s = - (1 / 196)"
    by (simp add: change_of_def target_height_def leftPressure_def
        applyPressureDelta_def initial_eq gravity_def density_def)
  have t: "target_height ?s = 25 / 49"
    by (simp add: target_height_def leftPressure_def
        applyPressureDelta_def initial_eq gravity_def density_def)
  have b: "height (big ?s) = 1 / 2" "vec_y (bottomLeft (small ?s)) = - (1 / 2)"
    by (simp_all add: applyPressureDelta_def initial_eq)
  show ?thesis
    using update_algorithm [OF ne ng] ne ng by (simp add: c t b)
qed


section \<open>Concrete runs\<close>

text \<open>The states of a few short runs from the initial state, computed once.\<close>

lemma run_deep: "run [PressureDelta (- 100)] initial = initial\<lparr>externalPressure := - 100\<rparr>"
  by (simp add: applyPressureDelta_def initial_eq)

lemma guard_deep: "guard_triggers (initial\<lparr>externalPressure := - 100\<rparr>)"
  by (simp add: guard_triggers_def change_of_def target_height_def leftPressure_def
      initial_eq gravity_def density_def)

lemma run_press_tick:
  "run [PressureDelta 0.1, Tick] initial =
    \<lparr>big = \<lparr>height = 97/196, width = 1/2,
             bottomLeft = \<lparr>vec_x = - (3/4), vec_y = - (1/2)\<rparr>,
             bottomRight = \<lparr>vec_x = - (1/4), vec_y = - (1/2)\<rparr>,
             topLeft = \<lparr>vec_x = - (3/4), vec_y = - (1/196)\<rparr>,
             topRight = \<lparr>vec_x = - (1/4), vec_y = - (1/196)\<rparr>,
             pressure = 49/10\<rparr>,
     small = \<lparr>height = 99/196, width = 1/4,
             bottomLeft = \<lparr>vec_x = 1/2, vec_y = - (1/2)\<rparr>,
             bottomRight = \<lparr>vec_x = 3/4, vec_y = - (1/2)\<rparr>,
             topLeft = \<lparr>vec_x = 1/2, vec_y = 1/196\<rparr>,
             topRight = \<lparr>vec_x = 3/4, vec_y = 1/196\<rparr>,
             pressure = 49/10\<rparr>,
     externalPressure = 1/10\<rparr>"
  by (simp add: update_def Let_def applyPressureDelta_def initial_eq gravity_def density_def)

lemma run_press_tick_release_tick:
  "run [PressureDelta 0.1, Tick, PressureDelta (- 0.1), Tick] initial =
    \<lparr>big = \<lparr>height = 1/2, width = 1/2,
             bottomLeft = \<lparr>vec_x = - (3/4), vec_y = - (1/2)\<rparr>,
             bottomRight = \<lparr>vec_x = - (1/4), vec_y = - (1/2)\<rparr>,
             topLeft = \<lparr>vec_x = - (3/4), vec_y = 0\<rparr>,
             topRight = \<lparr>vec_x = - (1/4), vec_y = 0\<rparr>,
             pressure = 97/20\<rparr>,
     small = \<lparr>height = 1/2, width = 1/4,
             bottomLeft = \<lparr>vec_x = 1/2, vec_y = - (1/2)\<rparr>,
             bottomRight = \<lparr>vec_x = 3/4, vec_y = - (1/2)\<rparr>,
             topLeft = \<lparr>vec_x = 1/2, vec_y = 0\<rparr>,
             topRight = \<lparr>vec_x = 3/4, vec_y = 0\<rparr>,
             pressure = 99/20\<rparr>,
     externalPressure = 0\<rparr>"
proof -
  have e: "run [PressureDelta 0.1, Tick, PressureDelta (- 0.1), Tick] initial =
      run [PressureDelta (- 0.1), Tick] (run [PressureDelta 0.1, Tick] initial)"
    by simp
  show ?thesis
    unfolding e run_press_tick
    by (simp add: update_def Let_def applyPressureDelta_def gravity_def density_def)
qed

lemma run_space_tick_shift:
  "run [Key GLFW_KEY_SPACE 0 GLFW_PRESS 0, Tick, Key GLFW_KEY_LEFT_SHIFT 0 GLFW_PRESS 0] initial =
    \<lparr>big = \<lparr>height = 97/196, width = 1/2,
             bottomLeft = \<lparr>vec_x = - (3/4), vec_y = - (1/2)\<rparr>,
             bottomRight = \<lparr>vec_x = - (1/4), vec_y = - (1/2)\<rparr>,
             topLeft = \<lparr>vec_x = - (3/4), vec_y = - (1/196)\<rparr>,
             topRight = \<lparr>vec_x = - (1/4), vec_y = - (1/196)\<rparr>,
             pressure = 49/10\<rparr>,
     small = \<lparr>height = 99/196, width = 1/4,
             bottomLeft = \<lparr>vec_x = 1/2, vec_y = - (1/2)\<rparr>,
             bottomRight = \<lparr>vec_x = 3/4, vec_y = - (1/2)\<rparr>,
             topLeft = \<lparr>vec_x = 1/2, vec_y = 1/196\<rparr>,
             topRight = \<lparr>vec_x = 3/4, vec_y = 1/196\<rparr>,
             pressure = 49/10\<rparr>,
     externalPressure = 0\<rparr>"
proof -
  have k1: "key_callback GLFW_KEY_SPACE 0 GLFW_PRESS 0 s = applyPressureDelta 0.1 s" for s
    by (simp add: key_callback_cases)
  have k2: "key_callback GLFW_KEY_LEFT_SHIFT 0 GLFW_PRESS 0 s = applyPressureDelta (- 0.1) s" for s
    by (simp add: key_callback_cases GLFW_KEY_SPACE_def GLFW_KEY_LEFT_SHIFT_def)
  have e: "run [Key GLFW_KEY_SPACE 0 GLFW_PRESS 0, Tick, Key GLFW_KEY_LEFT_SHIFT 0 GLFW_PRESS 0] initial =
      applyPressureDelta (- 0.1) (run [PressureDelta 0.1, Tick] initial)"
    by (simp add: k1 k2)
  show ?thesis
    unfolding e run_press_tick by (simp add: applyPressureDelta_def)
qed

lemma run_press_tick_vacuum:
  "run [PressureDelta 0.1, Tick, PressureDelta (- 100)] initial =
    \<lparr>big = \<lparr>height = 97/196, width = 1/2,
             bottomLeft = \<lparr>vec_x = - (3/4), vec_y = - (1/2)\<rparr>,
             bottomRight = \<lparr>vec_x = - (1/4), vec_y = - (1/2)\<rparr>,
             topLeft = \<lparr>vec_x = - (3/4), vec_y = - (1/196)\<rparr>,
             topRight = \<lparr>vec_x = - (1/4), vec_y = - (1/196)\<rparr>,
             pressure = 49/10\<rparr>,
     small = \<lparr>height = 99/196, width = 1/4,
             bottomLeft = \<lparr>vec_x = 1/2, vec_y = - (1/2)\<rparr>,
             bottomRight = \<lparr>vec_x = 3/4, vec_y = - (1/2)\<rparr>,
             topLeft = \<lparr>vec_x = 1/2, vec_y = 1/196\<rparr>,
             topRight = \<lparr>vec_x = 3/4, vec_y = 1/196\<rparr>,
             pressure = 49/10\<rparr>,
     externalPressure = - (999/10)\<rparr>"
proof -
  have e: "run [PressureDelta 0.1, Tick, PressureDelta (- 100)] initial =
      run [PressureDelta (- 100)] (run [PressureDelta 0.1, Tick] initial)"
    by simp
  show ?thesis
    unfolding e run_press_tick by (simp add: applyPressureDelta_def)
qed

lemma run_refreshed_unbalanced:
  "run [PressureDelta 0.1, Tick, PressureDelta (- 100), Tick, PressureDelta 99.9] initial =
    \<lparr>big = \<lparr>height = 97/196, width = 1/2,
             bottomLeft = \<lparr>vec_x = - (3/4), vec_y = - (1/2)\<rparr>,
             bottomRight = \<lparr>vec_x = - (1/4), vec_y = - (1/2)\<rparr>,
             topLeft = \<lparr>vec_x = - (3/4), vec_y = - (1/196)\<rparr>,
             topRight = \<lparr>vec_x = - (1/4), vec_y = - (1/196)\<rparr>,
             pressure = 97/20\<rparr>,
     small = \<lparr>height = 99/196, width = 1/4,
             bottomLeft = \<lparr>vec_x = 1/2, vec_y = - (1/2)\<rparr>,
             bottomRight = \<lparr>vec_x = 3/4, vec_y = - (1/2)\<rparr>,
             topLeft = \<lparr>vec_x = 1/2, vec_y = 1/196\<rparr>,
             topRight = \<lparr>vec_x = 3/4, vec_y = 1/196\<rparr>,
             pressure = 99/20\<rparr>,
     externalPressure = 0\<rparr>"
proof -
  have e: "run [PressureDelta 0.1, Tick, PressureDelta (- 100), Tick, PressureDelta 99.9] initial =
      run [Tick, PressureDelta 99.9] (run [PressureDelta 0.1, Tick, PressureDelta (- 100)] initial)"
    by simp
  show ?thesis
    unfolding e run_press_tick_vacuum
    by (simp add: update_def Let_def applyPressureDelta_def gravity_def density_def)
qed

section \<open>Early returns and iteration\<close>

lemma guard_refreshed: "guard_triggers (refreshed s) = guard_triggers s"
  by (simp add: guard_triggers_def change_of_def target_height_def leftPressure_def)

lemma refreshed_current: "pressures_current s \<Longrightarrow> refreshed s = s"
  by (simp add: pressures_current_def refreshed_def)


section \<open>Non-negative heights\<close>

text \<open>
  Claim C1. In every state that the program reaches from the initial state by any
  sequence of ticks, key events and pressure deltas, \<open>big.height\<close> is at least \<open>0\<close>
  and so is \<open>small.height\<close>, the height that a mutating tick re-derives from the
  geometry. Whenever the guard of the tick triggers, the tick leaves both heights as
  they are.
\<close>

theorem heights_nonneg:
  "0 \<le> height (big (run es initial)) \<and> 0 \<le> height (small (run es initial))
   \<and> (guard_triggers (run es initial) \<longrightarrow>
        height (big (update (run es initial))) = height (big (run es initial)) \<and>
        height (small (update (run es initial))) = height (small (run es initial)))"
  using reachable_valid [of es]
  by (simp add: valid_state_def update_guarded)

theorem heights_nonneg_witness:
  "guard_triggers (run [PressureDelta (- 100)] initial)
   \<and> height (big (update (run [PressureDelta (- 100)] initial))) = 1 / 2
   \<and> height (small (update (run [PressureDelta (- 100)] initial))) = 1 / 2
   \<and> 0 \<le> height (big (run [PressureDelta (- 100)] initial))
   \<and> 0 \<le> height (small (run [PressureDelta (- 100)] initial))"
proof -
  have g: "guard_triggers (run [PressureDelta (- 100)] initial)"
    by (simp only: run_deep guard_deep)
  have h: "height (big (run [PressureDelta (- 100)] initial)) = 1 / 2"
    "height (small (run [PressureDelta (- 100)] initial)) = 1 / 2"
    unfolding run_deep by (simp_all add: initial_eq)
  show ?thesis
    using heights_nonneg [of "[PressureDelta (- 100)]"] g h by simp
qed

section \<open>Convergence without external pressure\<close>

lemma hydro_gap_pressures:
  "externalPressure s = 0 \<Longrightarrow> hydro_gap s = \<bar>leftPressure s - rightPressure s\<bar>"
  by (simp add: hydro_gap_def leftPressure_def rightPressure_def)

lemma stored_gap_update: "stored_gap (update s) = hydro_gap s"
  by (simp add: stored_gap_def hydro_gap_def update_pressures)

lemma stored_gap_current: "pressures_current s \<Longrightarrow> stored_gap s = hydro_gap s"
  by (simp add: stored_gap_def hydro_gap_def pressures_current_def)

lemma no_guard_at_rest:
  assumes v: "valid_state s" and z: "externalPressure s = 0"
  shows "\<not> guard_triggers s"
proof -
  have t: "target_height s = height (big s)"
    using z by (simp add: target_height_def leftPressure_def gravity_def density_def)
  have c: "change_of s = (height (small s) - height (big s)) / 2"
    by (simp add: change_of_def t)
  have "0 \<le> height (big s)" "0 \<le> height (small s)"
    using v by (simp_all add: valid_state_def)
  then show ?thesis
    by (simp add: guard_triggers_def t c field_simps)
qed

lemma tick_settles:
  assumes v: "valid_state s" and z: "externalPressure s = 0"
  shows "hydro_gap (update s) = 0"
proof (cases "leftPressure s = rightPressure s")
  case True
  then show ?thesis
    using z by (simp add: update_balanced hydro_gap_def leftPressure_def rightPressure_def)
next
  case False
  have geo: "vec_y (bottomLeft (small s)) = - 0.5"
    using v by (simp add: valid_state_def)
  have "leftPressure (update s) = rightPressure (update s)"
    by (rule update_balances [OF geo False no_guard_at_rest [OF v z]])
  then show ?thesis
    using z by (simp add: hydro_gap_pressures)
qed

lemma iterate_at_rest:
  assumes v: "valid_state s" and z: "externalPressure s = 0"
  shows "valid_state ((update ^^ n) s) \<and> externalPressure ((update ^^ n) s) = 0"
  by (induction n) (simp_all add: v z update_valid)

lemma hydro_gap_nonneg: "0 \<le> hydro_gap s"
  by (simp add: hydro_gap_def)

text \<open>
  Claim C3, amended. From any valid state with \<open>externalPressure = 0\<close>, no tick
  increases the absolute difference of the two pressures \<open>height * gravity * density\<close>
  that the tick recomputes from the heights: after the first tick the difference is
  \<open>0\<close> and stays there. The stored fields \<open>big.pressure\<close> and \<open>small.pressure\<close>
  hold the pressures of the heights before the last tick: their absolute difference
  never increases from the second tick on, and on the first tick it does not increase
  when the fields are current in the starting state.
\<close>

theorem pressure_gap_never_increases:
  assumes "valid_state s" and "externalPressure s = 0"
  shows "hydro_gap ((update ^^ Suc n) s) \<le> hydro_gap ((update ^^ n) s)
   \<and> hydro_gap ((update ^^ Suc n) s) = 0
   \<and> stored_gap ((update ^^ Suc (Suc n)) s) \<le> stored_gap ((update ^^ Suc n) s)
   \<and> (pressures_current s \<longrightarrow>
        stored_gap ((update ^^ Suc n) s) \<le> stored_gap ((update ^^ n) s))"
proof -
  have it: "valid_state ((update ^^ n) s)" "externalPressure ((update ^^ n) s) = 0"
    using iterate_at_rest [OF assms, of n] by simp_all
  have zero: "hydro_gap ((update ^^ Suc n) s) = 0"
    using tick_settles [OF it] by simp
  have later: "stored_gap ((update ^^ Suc (Suc n)) s) \<le> stored_gap ((update ^^ Suc n) s)"
  proof -
    have "stored_gap ((update ^^ Suc (Suc n)) s) = hydro_gap ((update ^^ Suc n) s)"
      by (simp add: stored_gap_update)
    also have "\<dots> = 0" by (rule zero)
    finally show ?thesis by (simp add: stored_gap_def)
  qed
  have stored: "stored_gap ((update ^^ Suc n) s) \<le> stored_gap ((update ^^ n) s)"
    if cur: "pressures_current s"
  proof (cases n)
    case 0
    then show ?thesis
      by (simp add: stored_gap_update stored_gap_current [OF cur])
  next
    case (Suc m)
    have itm: "valid_state ((update ^^ m) s)" "externalPressure ((update ^^ m) s) = 0"
      using iterate_at_rest [OF assms, of m] by simp_all
    have "stored_gap ((update ^^ Suc n) s) = hydro_gap ((update ^^ Suc m) s)"
      using Suc by (simp add: stored_gap_update)
    also have "\<dots> = 0"
      using tick_settles [OF itm] by simp
    finally show ?thesis by (simp add: stored_gap_def)
  qed
  show ?thesis
    using zero later stored by (simp add: hydro_gap_nonneg)
qed

theorem pressure_gap_never_increases_witness:
  "valid_state (run [PressureDelta 0.1, Tick, PressureDelta (- 100), Tick, PressureDelta 99.9] initial)
   \<and> externalPressure (run [PressureDelta 0.1, Tick, PressureDelta (- 100), Tick, PressureDelta 99.9] initial) = 0
   \<and> pressures_current (run [PressureDelta 0.1, Tick, PressureDelta (- 100), Tick, PressureDelta 99.9] initial)
   \<and> hydro_gap (run [PressureDelta 0.1, Tick, PressureDelta (- 100), Tick, PressureDelta 99.9] initial) = 1 / 10
   \<and> hydro_gap (update (run [PressureDelta 0.1, Tick, PressureDelta (- 100), Tick, PressureDelta 99.9] initial)) = 0
   \<and> stored_gap (update (run [PressureDelta 0.1, Tick, PressureDelta (- 100), Tick, PressureDelta 99.9] initial))
      \<le> stored_gap (run [PressureDelta 0.1, Tick, PressureDelta (- 100), Tick, PressureDelta 99.9] initial)"
proof -
  let ?s = "run [PressureDelta 0.1, Tick, PressureDelta (- 100), Tick, PressureDelta 99.9] initial"
  have v: "valid_state ?s"
    by (rule reachable_valid)
  have z: "externalPressure ?s = 0"
    unfolding run_refreshed_unbalanced by simp
  have c: "pressures_current ?s"
    unfolding run_refreshed_unbalanced
    by (simp add: pressures_current_def gravity_def density_def)
  have g: "hydro_gap ?s = 1 / 10"
    unfolding run_refreshed_unbalanced
    by (simp add: hydro_gap_def gravity_def density_def)
  show ?thesis
    using pressure_gap_never_increases [OF v z, of 0] v z c g by simp
qed

text \<open>
  The claim as the specification has it, on the stored fields from any valid state,
  fails on the first tick after the fields went stale. Space, tick, left shift leaves
  the heights \<open>97/196\<close> and \<open>99/196\<close>, \<open>externalPressure = 0\<close> and both stored
  pressures at \<open>4.9\<close>; the next tick stores \<open>4.85\<close> and \<open>4.95\<close>, so the
  difference of the stored pressures goes from \<open>0\<close> to \<open>0.1\<close>.
\<close>

theorem stored_gap_counterexample:
  "valid_state (run [Key GLFW_KEY_SPACE 0 GLFW_PRESS 0, Tick, Key GLFW_KEY_LEFT_SHIFT 0 GLFW_PRESS 0] initial)
   \<and> externalPressure (run [Key GLFW_KEY_SPACE 0 GLFW_PRESS 0, Tick, Key GLFW_KEY_LEFT_SHIFT 0 GLFW_PRESS 0] initial) = 0
   \<and> stored_gap (run [Key GLFW_KEY_SPACE 0 GLFW_PRESS 0, Tick, Key GLFW_KEY_LEFT_SHIFT 0 GLFW_PRESS 0] initial) = 0
   \<and> stored_gap (update (run [Key GLFW_KEY_SPACE 0 GLFW_PRESS 0, Tick, Key GLFW_KEY_LEFT_SHIFT 0 GLFW_PRESS 0] initial)) = 1 / 10
   \<and> stored_gap (run [Key GLFW_KEY_SPACE 0 GLFW_PRESS 0, Tick, Key GLFW_KEY_LEFT_SHIFT 0 GLFW_PRESS 0] initial)
      < stored_gap (update (run [Key GLFW_KEY_SPACE 0 GLFW_PRESS 0, Tick, Key GLFW_KEY_LEFT_SHIFT 0 GLFW_PRESS 0] initial))"
proof -
  let ?s = "run [Key GLFW_KEY_SPACE 0 GLFW_PRESS 0, Tick, Key GLFW_KEY_LEFT_SHIFT 0 GLFW_PRESS 0] initial"
  have v: "valid_state ?s"
    by (rule reachable_valid)
  have z: "externalPressure ?s = 0"
    unfolding run_space_tick_shift by simp
  have old: "stored_gap ?s = 0"
    unfolding run_space_tick_shift by (simp add: stored_gap_def)
  have new: "stored_gap (update ?s) = 1 / 10"
    unfolding stored_gap_update run_space_tick_shift
    by (simp add: hydro_gap_def gravity_def density_def)
  have lt: "stored_gap ?s < stored_gap (update ?s)"
    unfolding old new by simp
  show ?thesis
    using v z old new lt by blast
qed

section \<open>The tick of a balanced state\<close>

text \<open>
  Claim C4, amended. In every state whose left pressure equals its right pressure
  exactly, the tick changes nothing but the two pressure fields, which it sets to
  \<open>height * gravity * density\<close>; when the fields hold these values already, the
  whole state is unchanged. From the initial configuration (both heights \<open>0.5\<close>,
  \<open>externalPressure = 0\<close>) the pressures are equal and the first tick changes
  nothing at all.
\<close>

theorem balanced_tick_noop:
  assumes "leftPressure s = rightPressure s"
  shows "update s = refreshed s
   \<and> (pressures_current s \<longrightarrow> update s = s)
   \<and> leftPressure initial = rightPressure initial
   \<and> update initial = initial"
proof -
  have i: "leftPressure initial = rightPressure initial"
    by (simp add: leftPressure_def rightPressure_def initial_eq)
  have c: "pressures_current initial"
    by (simp add: pressures_current_def initial_eq gravity_def density_def)
  show ?thesis
    using assms i by (simp add: update_balanced refreshed_current c)
qed

theorem balanced_tick_noop_witness:
  "leftPressure initial = rightPressure initial \<and> update initial = refreshed initial
   \<and> pressures_current initial \<and> update initial = initial"
proof -
  have i: "leftPressure initial = rightPressure initial"
    by (simp add: leftPressure_def rightPressure_def initial_eq)
  have c: "pressures_current initial"
    by (simp add: pressures_current_def initial_eq gravity_def density_def)
  show ?thesis
    using balanced_tick_noop [OF i] i c by blast
qed

text \<open>
  The claim as the specification has it, with the pressure fields unchanged too, fails:
  the tick reassigns both pressure fields before it compares them, and after a tick
  that moved the heights the fields still hold the pressures of the heights before it.
  Press, tick, release, tick leads to the heights \<open>0.5\<close> and \<open>0.5\<close> with the stored
  pressures \<open>4.85\<close> and \<open>4.95\<close>; the tick of this balanced state stores \<open>4.9\<close>.
\<close>

theorem balanced_tick_stale_counterexample:
  "leftPressure (run [PressureDelta 0.1, Tick, PressureDelta (- 0.1), Tick] initial)
     = rightPressure (run [PressureDelta 0.1, Tick, PressureDelta (- 0.1), Tick] initial)
   \<and> update (run [PressureDelta 0.1, Tick, PressureDelta (- 0.1), Tick] initial)
     \<noteq> run [PressureDelta 0.1, Tick, PressureDelta (- 0.1), Tick] initial
   \<and> pressure (big (run [PressureDelta 0.1, Tick, PressureDelta (- 0.1), Tick] initial)) = 97 / 20
   \<and> pressure (big (update (run [PressureDelta 0.1, Tick, PressureDelta (- 0.1), Tick] initial))) = 49 / 10"
proof -
  let ?s = "run [PressureDelta 0.1, Tick, PressureDelta (- 0.1), Tick] initial"
  have bal: "leftPressure ?s = rightPressure ?s"
    unfolding run_press_tick_release_tick by (simp add: leftPressure_def rightPressure_def)
  have old: "pressure (big ?s) = 97 / 20"
    unfolding run_press_tick_release_tick by simp
  have new: "pressure (big (update ?s)) = 49 / 10"
    unfolding update_pressures run_press_tick_release_tick
    by (simp add: gravity_def density_def)
  have "update ?s \<noteq> ?s"
    using old new by auto
  then show ?thesis using bal old new by blast
qed

section \<open>The tick of a guarded state\<close>

text \<open>
  Claim C5, amended. In every state in which the guard triggers, the tick changes
  nothing but the two pressure fields, which it sets to
  \<open>height * gravity * density\<close>. In the resulting state the guard triggers again, and
  a second tick changes nothing at all.
\<close>

theorem guard_idempotent:
  assumes "guard_triggers s"
  shows "update s = refreshed s
   \<and> guard_triggers (update s)
   \<and> update (update s) = update s"
proof -
  have u: "update s = refreshed s"
    by (rule update_guarded [OF assms])
  have g: "guard_triggers (refreshed s)"
    using assms by (simp add: guard_refreshed)
  have "update (refreshed s) = refreshed (refreshed s)"
    by (rule update_guarded [OF g])
  then show ?thesis
    using u g by (simp add: refreshed_idem)
qed

theorem guard_idempotent_witness:
  "guard_triggers (initial\<lparr>externalPressure := - 100\<rparr>)
   \<and> update (initial\<lparr>externalPressure := - 100\<rparr>) = refreshed (initial\<lparr>externalPressure := - 100\<rparr>)
   \<and> guard_triggers (update (initial\<lparr>externalPressure := - 100\<rparr>))
   \<and> update (update (initial\<lparr>externalPressure := - 100\<rparr>)) = update (initial\<lparr>externalPressure := - 100\<rparr>)"
  using guard_idempotent [OF guard_deep] guard_deep by blast

text \<open>
  A refused tick is not free of any state change: it too returns after both pressure
  fields are reassigned. After press and tick the stored pressure of the big container
  is \<open>4.9\<close> while its height is \<open>97/196\<close>; with the external pressure then lowered
  by \<open>100\<close> the guard triggers, and the refused tick stores the pressure \<open>4.85\<close>.
\<close>

theorem guarded_tick_stale_counterexample:
  "guard_triggers (run [PressureDelta 0.1, Tick, PressureDelta (- 100)] initial)
   \<and> update (run [PressureDelta 0.1, Tick, PressureDelta (- 100)] initial)
     \<noteq> run [PressureDelta 0.1, Tick, PressureDelta (- 100)] initial
   \<and> pressure (big (run [PressureDelta 0.1, Tick, PressureDelta (- 100)] initial)) = 49 / 10
   \<and> pressure (big (update (run [PressureDelta 0.1, Tick, PressureDelta (- 100)] initial))) = 97 / 20"
proof -
  let ?s = "run [PressureDelta 0.1, Tick, PressureDelta (- 100)] initial"
  have g: "guard_triggers ?s"
    unfolding run_press_tick_vacuum
    by (simp add: guard_triggers_def change_of_def target_height_def leftPressure_def
        gravity_def density_def)
  have old: "pressure (big ?s) = 49 / 10"
    unfolding run_press_tick_vacuum by simp
  have new: "pressure (big (update ?s)) = 97 / 20"
    unfolding update_pressures run_press_tick_vacuum
    by (simp add: gravity_def density_def)
  have "update ?s \<noteq> ?s"
    using old new by auto
  then show ?thesis using g old new by blast
qed

section \<open>A very negative external pressure\<close>






section \<open>The widths are never read\<close>

lemma update_width_erase: "width_erase (update s) = update (width_erase s)"
  by (simp add: update_def width_erase_def Let_def)

lemma step_width_erase: "width_erase (step e s) = step e (width_erase s)"
proof (cases e)
  case Tick
  then show ?thesis by (simp add: update_width_erase)
next
  case (Key key scancode action mods)
  then show ?thesis
    by (simp add: key_callback_cases applyPressureDelta_def width_erase_def)
next
  case (PressureDelta delta)
  then show ?thesis by (simp add: applyPressureDelta_def width_erase_def)
qed

lemma run_width_erase: "width_erase (run es s) = run es (width_erase s)"
  by (induction es arbitrary: s) (simp_all add: step_width_erase)

lemma width_erase_fields:
  "height (big (width_erase s)) = height (big s)"
  "height (small (width_erase s)) = height (small s)"
  "pressure (big (width_erase s)) = pressure (big s)"
  "pressure (small (width_erase s)) = pressure (small s)"
  "topLeft (big (width_erase s)) = topLeft (big s)"
  "topRight (big (width_erase s)) = topRight (big s)"
  "topLeft (small (width_erase s)) = topLeft (small s)"
  "topRight (small (width_erase s)) = topRight (small s)"
  "externalPressure (width_erase s) = externalPressure s"
  by (simp_all add: width_erase_def)

text \<open>
  Claim C7. Two states that differ in \<open>big.width\<close> and \<open>small.width\<close> at most
  stay so under any sequence of ticks and pressure changes: the two runs have the same
  heights, the same pressure fields and the same top-edge y-coordinates. The pressure
  that a tick stores is \<open>density * height * gravity\<close> and nothing else.
\<close>

theorem width_noninterference:
  assumes "width_erase s = width_erase t"
  shows "width_erase (run es s) = width_erase (run es t)
   \<and> height (big (run es s)) = height (big (run es t))
   \<and> height (small (run es s)) = height (small (run es t))
   \<and> pressure (big (run es s)) = pressure (big (run es t))
   \<and> pressure (small (run es s)) = pressure (small (run es t))
   \<and> vec_y (topLeft (big (run es s))) = vec_y (topLeft (big (run es t)))
   \<and> vec_y (topRight (big (run es s))) = vec_y (topRight (big (run es t)))
   \<and> vec_y (topLeft (small (run es s))) = vec_y (topLeft (small (run es t)))
   \<and> vec_y (topRight (small (run es s))) = vec_y (topRight (small (run es t)))
   \<and> pressure (big (update s)) = density * height (big s) * gravity
   \<and> pressure (small (update s)) = density * height (small s) * gravity"
proof -
  have e: "width_erase (run es s) = width_erase (run es t)"
    by (simp add: run_width_erase assms)
  have f: "\<And>g. g (width_erase (run es s)) = g (width_erase (run es t))"
    by (simp add: e)
  have hb: "height (big (run es s)) = height (big (run es t))"
    using f [of "\<lambda>x. height (big x)"] by (simp add: width_erase_fields)
  have hs: "height (small (run es s)) = height (small (run es t))"
    using f [of "\<lambda>x. height (small x)"] by (simp add: width_erase_fields)
  have pb: "pressure (big (run es s)) = pressure (big (run es t))"
    using f [of "\<lambda>x. pressure (big x)"] by (simp add: width_erase_fields)
  have ps: "pressure (small (run es s)) = pressure (small (run es t))"
    using f [of "\<lambda>x. pressure (small x)"] by (simp add: width_erase_fields)
  have tlb: "topLeft (big (run es s)) = topLeft (big (run es t))"
    using f [of "\<lambda>x. topLeft (big x)"] by (simp add: width_erase_fields)
  have trb: "topRight (big (run es s)) = topRight (big (run es t))"
    using f [of "\<lambda>x. topRight (big x)"] by (simp add: width_erase_fields)
  have tls: "topLeft (small (run es s)) = topLeft (small (run es t))"
    using f [of "\<lambda>x. topLeft (small x)"] by (simp add: width_erase_fields)
  have trs: "topRight (small (run es s)) = topRight (small (run es t))"
    using f [of "\<lambda>x. topRight (small x)"] by (simp add: width_erase_fields)
  show ?thesis
    by (simp add: e hb hs pb ps tlb trb tls trs update_pressures mult_ac)
qed

theorem width_noninterference_witness:
  "width_erase initial
     = width_erase (initial\<lparr>big := (big initial)\<lparr>width := 7\<rparr>, small := (small initial)\<lparr>width := 3\<rparr>\<rparr>)
   \<and> width (big (initial\<lparr>big := (big initial)\<lparr>width := 7\<rparr>, small := (small initial)\<lparr>width := 3\<rparr>\<rparr>))
     \<noteq> width (big initial)
   \<and> height (big (run [PressureDelta 0.1, Tick]
        (initial\<lparr>big := (big initial)\<lparr>width := 7\<rparr>, small := (small initial)\<lparr>width := 3\<rparr>\<rparr>))) = 97 / 196
   \<and> height (small (run [PressureDelta 0.1, Tick]
        (initial\<lparr>big := (big initial)\<lparr>width := 7\<rparr>, small := (small initial)\<lparr>width := 3\<rparr>\<rparr>))) = 99 / 196"
proof -
  let ?t = "initial\<lparr>big := (big initial)\<lparr>width := 7\<rparr>, small := (small initial)\<lparr>width := 3\<rparr>\<rparr>"
  have e: "width_erase initial = width_erase ?t"
    by (simp add: width_erase_def)
  have w: "width (big ?t) \<noteq> width (big initial)"
    by (simp add: initial_eq)
  have hb: "height (big (run [PressureDelta 0.1, Tick] initial)) = 97 / 196"
    and hs: "height (small (run [PressureDelta 0.1, Tick] initial)) = 99 / 196"
    unfolding run_press_tick by simp_all
  show ?thesis
    using width_noninterference [OF e, of "[PressureDelta 0.1, Tick]"] e w hb hs by metis
qed

section \<open>Key input\<close>

text \<open>
  Claim C8. The space key, pressed or repeated, adds exactly \<open>0.1\<close> to
  \<open>externalPressure\<close>; the left shift key, pressed or repeated, subtracts exactly
  \<open>0.1\<close>; a release changes nothing, and neither does any other key. The new value
  is the old one plus or minus the step whatever the old value is: nothing validates,
  clamps or bounds it.
\<close>

theorem key_callback_accumulates:
  "key_callback key scancode action mods s =
     (if key = GLFW_KEY_SPACE \<and> (action = GLFW_PRESS \<or> action = GLFW_REPEAT)
      then s\<lparr>externalPressure := externalPressure s + 0.1\<rparr>
      else if key = GLFW_KEY_LEFT_SHIFT \<and> (action = GLFW_PRESS \<or> action = GLFW_REPEAT)
      then s\<lparr>externalPressure := externalPressure s - 0.1\<rparr>
      else s)
   \<and> key_callback key scancode GLFW_RELEASE mods s = s
   \<and> externalPressure (key_callback GLFW_KEY_SPACE scancode GLFW_PRESS mods s) = externalPressure s + 0.1
   \<and> externalPressure (key_callback GLFW_KEY_SPACE scancode GLFW_REPEAT mods s) = externalPressure s + 0.1
   \<and> externalPressure (key_callback GLFW_KEY_LEFT_SHIFT scancode GLFW_PRESS mods s) = externalPressure s - 0.1
   \<and> externalPressure (key_callback GLFW_KEY_LEFT_SHIFT scancode GLFW_REPEAT mods s) = externalPressure s - 0.1"
  by (simp add: key_callback_def Let_def GLFW_KEY_SPACE_def GLFW_KEY_LEFT_SHIFT_def
      GLFW_PRESS_def GLFW_REPEAT_def GLFW_RELEASE_def)

section \<open>Equilibrium after one tick\<close>

text \<open>
  Claim C9. In every state of a run where the two pressures differ and the guard does
  not trigger, one tick produces a state with
  \<open>big.height * gravity * density + externalPressure = small.height * gravity * density\<close>
  exactly. The tick leaves \<open>externalPressure\<close> alone, so a second tick finds its two
  pressures equal, returns at the first test and keeps both heights.
\<close>

theorem one_tick_equilibrium:
  assumes "s = run es initial"
    and "leftPressure s \<noteq> rightPressure s" and "\<not> guard_triggers s"
  shows "height (big (update s)) * gravity * density + externalPressure (update s)
           = height (small (update s)) * gravity * density
   \<and> externalPressure (update s) = externalPressure s
   \<and> leftPressure (update s) = rightPressure (update s)
   \<and> update (update s) = refreshed (update s)
   \<and> height (big (update (update s))) = height (big (update s))
   \<and> height (small (update (update s))) = height (small (update s))"
proof -
  have "valid_state s" using assms(1) reachable_valid by simp
  then have geo: "vec_y (bottomLeft (small s)) = - 0.5" by (simp add: valid_state_def)
  have bal: "leftPressure (update s) = rightPressure (update s)"
    by (rule update_balances [OF geo assms(2) assms(3)])
  have again: "update (update s) = refreshed (update s)"
    by (rule update_balanced [OF bal])
  show ?thesis
    using bal by (simp add: again) (simp add: leftPressure_def rightPressure_def)
qed

theorem one_tick_equilibrium_witness:
  "leftPressure (run [PressureDelta 0.1] initial) \<noteq> rightPressure (run [PressureDelta 0.1] initial)
   \<and> \<not> guard_triggers (run [PressureDelta 0.1] initial)
   \<and> height (big (update (run [PressureDelta 0.1] initial))) * gravity * density
        + externalPressure (update (run [PressureDelta 0.1] initial))
      = height (small (update (run [PressureDelta 0.1] initial))) * gravity * density
   \<and> update (update (run [PressureDelta 0.1] initial)) = refreshed (update (run [PressureDelta 0.1] initial))"
proof -
  let ?s = "run [PressureDelta 0.1] initial"
  have ne: "leftPressure ?s \<noteq> rightPressure ?s"
    by (simp add: leftPressure_def rightPressure_def applyPressureDelta_def initial_eq
        gravity_def density_def)
  have ng: "\<not> guard_triggers ?s"
    by (simp add: guard_triggers_def change_of_def target_height_def leftPressure_def
        applyPressureDelta_def initial_eq gravity_def density_def)
  show ?thesis
    using one_tick_equilibrium [OF refl ne ng] ne ng by blast
qed

end
